theory Spec2Isabelle
  imports Main
begin

section \<open>Values shared by the three adapters\<close>

text \<open>
  Byte strings and text strings are both lists of 8-bit characters. A value decoded from
  a JSON body (\<^verbatim>\<open>response.json()\<close>) is a \<open>jvalue\<close>; a Python dict
  is an association list read with \<open>map_of\<close>. JSON numbers are restricted to
  integers.
\<close>

type_synonym bytes = string

datatype jvalue =
    JNull
  | JBool bool
  | JNum int
  | JStr string
  | JArr "jvalue list"
  | JObj "(string \<times> jvalue) list"

text \<open>\<^verbatim>\<open>d.get(k, default)\<close> on a dict.\<close>

definition dict_get :: "(string \<times> jvalue) list \<Rightarrow> string \<Rightarrow> jvalue \<Rightarrow> jvalue" where
  "dict_get d k dflt = (case map_of d k of None \<Rightarrow> dflt | Some v \<Rightarrow> v)"

subsection \<open>exceptions.py\<close>

text \<open>
  One constructor per exception class of \<^verbatim>\<open>objstore/exceptions.py\<close>, with the
  arguments of its \<^verbatim>\<open>__init__\<close>: \<open>ObjectStoreError message status_code\<close>,
  \<open>ObjectNotFoundError key\<close> (message \<^verbatim>\<open>"Object not found: {key}"\<close>, status 404),
  \<open>AuthenticationError message\<close> (status 401), \<open>ValidationError message\<close>
  (status 400); \<open>ConnectionError\<close>, \<open>ServerError\<close> and \<open>TimeoutError\<close>
  inherit the base constructor. The message is whatever object the raise site passes.
  \<open>Foreign n\<close> is an exception of a class \<open>n\<close> that is not defined in
  \<^verbatim>\<open>exceptions.py\<close> (a builtin or library exception) and that no handler of the
  adapter catches.
\<close>

datatype exception =
    ObjectStoreError jvalue "int option"
  | ObjectNotFoundError string
  | ConnectionError jvalue "int option"
  | AuthenticationError jvalue
  | ValidationError jvalue
  | ServerError jvalue "int option"
  | TimeoutError jvalue "int option"
  | Foreign string

text \<open>
  \<^verbatim>\<open>isinstance(e, C)\<close> for a class \<open>C\<close> of \<^verbatim>\<open>exceptions.py\<close>, named by
  its name: every class there derives from \<^verbatim>\<open>ObjectStoreError\<close> directly, and
  a foreign exception is an instance of none of them.
\<close>

fun isinstance :: "exception \<Rightarrow> string \<Rightarrow> bool" where
  "isinstance (ObjectStoreError m sc) c = (c = ''ObjectStoreError'')"
| "isinstance (ObjectNotFoundError k) c = (c = ''ObjectNotFoundError'' \<or> c = ''ObjectStoreError'')"
| "isinstance (ConnectionError m sc) c = (c = ''ConnectionError'' \<or> c = ''ObjectStoreError'')"
| "isinstance (AuthenticationError m) c = (c = ''AuthenticationError'' \<or> c = ''ObjectStoreError'')"
| "isinstance (ValidationError m) c = (c = ''ValidationError'' \<or> c = ''ObjectStoreError'')"
| "isinstance (ServerError m sc) c = (c = ''ServerError'' \<or> c = ''ObjectStoreError'')"
| "isinstance (TimeoutError m sc) c = (c = ''TimeoutError'' \<or> c = ''ObjectStoreError'')"
| "isinstance (Foreign n) c = False"

fun message :: "exception \<Rightarrow> jvalue" where
  "message (ObjectStoreError m sc) = m"
| "message (ObjectNotFoundError k) = JStr (''Object not found: '' @ k)"
| "message (ConnectionError m sc) = m"
| "message (AuthenticationError m) = m"
| "message (ValidationError m) = m"
| "message (ServerError m sc) = m"
| "message (TimeoutError m sc) = m"
| "message (Foreign n) = JNull"

fun exc_status_code :: "exception \<Rightarrow> int option" where
  "exc_status_code (ObjectStoreError m sc) = sc"
| "exc_status_code (ObjectNotFoundError k) = Some 404"
| "exc_status_code (ConnectionError m sc) = sc"
| "exc_status_code (AuthenticationError m) = Some 401"
| "exc_status_code (ValidationError m) = Some 400"
| "exc_status_code (ServerError m sc) = sc"
| "exc_status_code (TimeoutError m sc) = sc"
| "exc_status_code (Foreign n) = None"

subsection \<open>models.py\<close>

type_synonym datetime = int

record Metadata =
  content_type :: "string option"
  content_encoding :: "string option"
  size' :: "int option"
  last_modified :: "datetime option"
  etag :: "string option"
  custom :: "(string \<times> string) list"

text \<open>\<^verbatim>\<open>Metadata()\<close>: every field at its declared default.\<close>

definition Metadata_default :: Metadata where
  "Metadata_default =
     \<lparr>content_type = None, content_encoding = None, size' = None,
      last_modified = None, etag = None, custom = []\<rparr>"

record LifecyclePolicy =
  id' :: string
  prefix :: string
  retention_seconds :: "int option"
  action :: string
  destination_type :: "string option"
  destination_settings :: "(string \<times> string) list"
  days_after_creation :: "int option"
  enabled :: bool

text \<open>
  \<^verbatim>\<open>LifecyclePolicy.model_post_init\<close>, run by the constructor on the fields as
  given (an omitted optional field is \<open>None\<close>).
\<close>

definition model_post_init :: "LifecyclePolicy \<Rightarrow> LifecyclePolicy" where
  "model_post_init self =
     (if days_after_creation self \<noteq> None \<and> retention_seconds self = None then
        (case days_after_creation self of
           Some d \<Rightarrow> self\<lparr>retention_seconds := Some (d * 86400)\<rparr>
         | None \<Rightarrow> self)
      else if retention_seconds self = None then
        self\<lparr>retention_seconds := Some (30 * 86400)\<rparr>
      else self)"

text \<open>
  Serialisation (\<^verbatim>\<open>model_dump\<close>): the declared fields in declaration order, but
  for \<^verbatim>\<open>days_after_creation\<close>, declared with \<^verbatim>\<open>exclude=True\<close>.
  \<^verbatim>\<open>model_dump(exclude_none=True)\<close>, which the adapters send, drops the fields
  whose value is \<^verbatim>\<open>None\<close>.
\<close>

definition opt_str :: "string option \<Rightarrow> jvalue" where
  "opt_str v = (case v of None \<Rightarrow> JNull | Some s \<Rightarrow> JStr s)"

definition opt_int :: "int option \<Rightarrow> jvalue" where
  "opt_int v = (case v of None \<Rightarrow> JNull | Some n \<Rightarrow> JNum n)"

definition str_dict :: "(string \<times> string) list \<Rightarrow> jvalue" where
  "str_dict d = JObj (map (\<lambda>(k, v). (k, JStr v)) d)"

definition model_dump :: "LifecyclePolicy \<Rightarrow> (string \<times> jvalue) list" where
  "model_dump p =
     [(''id'', JStr (id' p)),
      (''prefix'', JStr (prefix p)),
      (''retention_seconds'', opt_int (retention_seconds p)),
      (''action'', JStr (action p)),
      (''destination_type'', opt_str (destination_type p)),
      (''destination_settings'', str_dict (destination_settings p)),
      (''enabled'', JBool (enabled p))]"

definition model_dump_exclude_none :: "LifecyclePolicy \<Rightarrow> (string \<times> jvalue) list" where
  "model_dump_exclude_none p = filter (\<lambda>(k, v). v \<noteq> JNull) (model_dump p)"

text \<open>Result values; the arguments are the keyword arguments in declaration order.\<close>

datatype PutResponse = PutResponse bool "string option" "string option"
  \<comment> \<open>success, message, etag\<close>

datatype DeleteResponse = DeleteResponse bool "string option"
  \<comment> \<open>success, message\<close>

datatype PolicyResponse = PolicyResponse bool "string option"
  \<comment> \<open>success, message\<close>

datatype ExistsResponse = ExistsResponse bool
  \<comment> \<open>exists\<close>

text \<open>
  What the model validation of an \<^verbatim>\<open>Optional[str]\<close> field does with a decoded
  JSON value: a string or \<^verbatim>\<open>None\<close> is accepted, anything else is rejected with
  the library's own validation error.
\<close>

definition optional_str_field :: "jvalue \<Rightarrow> exception + string option" where
  "optional_str_field v =
     (case v of
        JNull \<Rightarrow> Inr None
      | JStr s \<Rightarrow> Inr (Some s)
      | _ \<Rightarrow> Inl (Foreign ''pydantic.ValidationError''))"

subsection \<open>Strings\<close>

text \<open>\<^verbatim>\<open>str(n)\<close> for an integer: its decimal digits, with a minus sign when negative.\<close>

definition digit_char :: "nat \<Rightarrow> char" where
  "digit_char d = char_of (48 + d)"

function str_nat :: "nat \<Rightarrow> string" where
  "str_nat n = (if n < 10 then [digit_char n] else str_nat (n div 10) @ [digit_char (n mod 10)])"
  by pat_completeness auto
termination
  by (relation "measure (\<lambda>n. n)") auto

declare str_nat.simps [simp del]

definition str_int :: "int \<Rightarrow> string" where
  "str_int i = (if i < 0 then CHR ''-'' # str_nat (nat (- i)) else str_nat (nat i))"

text \<open>\<^verbatim>\<open>s.lower()\<close> on the ASCII letters, and \<^verbatim>\<open>sub in s\<close>.\<close>

definition lower_char :: "char \<Rightarrow> char" where
  "lower_char c =
     (let n = (of_char c :: nat) in if 65 \<le> n \<and> n \<le> 90 then char_of (n + 32) else c)"

definition lower :: "string \<Rightarrow> string" where
  "lower s = map lower_char s"

fun startswith :: "string \<Rightarrow> string \<Rightarrow> bool" where
  "startswith s [] = True"
| "startswith [] (p # ps) = False"
| "startswith (c # cs) (p # ps) = (c = p \<and> startswith cs ps)"

fun contains :: "string \<Rightarrow> string \<Rightarrow> bool" where
  "contains sub [] = (sub = [])"
| "contains sub (c # cs) = (startswith (c # cs) sub \<or> contains sub cs)"

section \<open>The HTTP adapters: what the transport hands back\<close>

text \<open>
  A response of the HTTP library, reduced to the attributes the adapters read
  (\<open>body_text\<close> is \<^verbatim>\<open>response.text\<close>).
  \<open>json\<close> is \<open>None\<close> when \<^verbatim>\<open>response.json()\<close> raises (the body is not JSON).
  A request that raises instead of returning a response gives a
  \<open>transport_exception\<close>: its class name, what the two \<^verbatim>\<open>except\<close> clauses of the
  adapters test (\<open>is_Timeout\<close> for \<^verbatim>\<open>requests.exceptions.Timeout\<close> and
  \<^verbatim>\<open>httpx.TimeoutException\<close>, \<open>is_ConnectionError\<close> for
  \<^verbatim>\<open>requests.exceptions.ConnectionError\<close> and \<^verbatim>\<open>httpx.ConnectError\<close>), and
  \<^verbatim>\<open>str(e)\<close>. The request itself (URL, headers, body) is not modelled: an
  operation is a function of what the transport answers. \<open>headers\<close> is read by
  the header's canonical name (the libraries' lookup ignores case); \<open>content\<close>,
  \<open>body_text\<close> and \<open>json\<close> are the three views of one body that the
  libraries offer, bytes, decoded text and decoded JSON.
\<close>

record response =
  status_code :: int
  headers :: "string \<rightharpoonup> string"
  content :: bytes
  body_text :: string
  json :: "jvalue option"

record transport_exception =
  exc_name :: string
  is_Timeout :: bool
  is_ConnectionError :: bool
  exc_str :: string

type_synonym outcome = "transport_exception + response"

text \<open>
  The two \<^verbatim>\<open>except\<close> clauses that close every method of the REST and QUIC
  adapters, in their order; an exception neither clause matches propagates as it is.
\<close>

definition transport_error :: "transport_exception \<Rightarrow> exception" where
  "transport_error e =
     (if is_Timeout e then TimeoutError (JStr ''Request timed out'') None
      else if is_ConnectionError e then
        ConnectionError (JStr (''Connection failed: '' @ exc_str e)) None
      else Foreign (exc_name e))"

text \<open>
  \<^verbatim>\<open>_handle_error\<close> (the same text in \<^verbatim>\<open>rest_client.py\<close> and
  \<^verbatim>\<open>quic_client.py\<close>): it always raises; the model returns what it raises.
  \<open>error_message\<close> is the \<^verbatim>\<open>try\<close>/\<^verbatim>\<open>except Exception\<close> block of the
  400 and the 5xx branches.
\<close>

definition error_message :: "response \<Rightarrow> string \<Rightarrow> jvalue" where
  "error_message r dflt =
     (case json r of
        Some (JObj d) \<Rightarrow> dict_get d ''message'' (JStr dflt)
      | _ \<Rightarrow> JStr (if body_text r = [] then dflt else body_text r))"

definition handle_error :: "response \<Rightarrow> exception" where
  "handle_error r =
     (if status_code r = 404 then ObjectNotFoundError ''Object not found''
      else if status_code r = 401 then AuthenticationError (JStr ''Authentication failed'')
      else if status_code r = 400 then ValidationError (error_message r ''Validation error'')
      else if status_code r \<ge> 500 then
        ServerError (error_message r ''Server error'') (Some (status_code r))
      else
        ObjectStoreError
          (JStr (''HTTP '' @ str_int (status_code r) @ '': '' @ body_text r))
          (Some (status_code r)))"

subsection \<open>The retry decorator of the REST adapter\<close>

text \<open>
  Every method of \<^verbatim>\<open>RestClient\<close> from \<^verbatim>\<open>put\<close> on is wrapped in
  \<^verbatim>\<open>@retry(stop=stop_after_attempt(3), wait=wait_exponential(...), reraise=True)\<close>.
  No \<^verbatim>\<open>retry=\<close> condition is given, so the decorator retries after every raised
  exception; it stops when the call returns or when the attempt just made is the
  third, and then re-raises that attempt's exception. \<open>attempt i\<close> is what the
  \<open>i\<close>-th execution of the method body does (from 0); the result is the number of
  executions together with the value returned or the exception raised. The waiting
  between attempts is not modelled.
\<close>

fun retrying :: "nat \<Rightarrow> nat \<Rightarrow> (nat \<Rightarrow> exception + 'a) \<Rightarrow> nat \<times> (exception + 'a)" where
  "retrying 0 i attempt = (Suc i, attempt i)"
| "retrying (Suc k) i attempt =
     (case attempt i of
        Inr v \<Rightarrow> (Suc i, Inr v)
      | Inl e \<Rightarrow> retrying k (Suc i) attempt)"

definition stop_after_attempt :: nat where
  "stop_after_attempt = 3"

definition retry :: "(nat \<Rightarrow> exception + 'a) \<Rightarrow> nat \<times> (exception + 'a)" where
  "retry attempt = retrying (stop_after_attempt - 1) 0 attempt"

text \<open>A method that carries no decorator runs its body once.\<close>

definition undecorated :: "(nat \<Rightarrow> exception + 'a) \<Rightarrow> nat \<times> (exception + 'a)" where
  "undecorated attempt = (1, attempt 0)"

subsection \<open>Decoding the JSON envelope of a success response\<close>

text \<open>
  \<^verbatim>\<open>result = response.json()\<close> followed by
  \<^verbatim>\<open>message=result.get("message", default)\<close>: the decoder raises when the body is
  not JSON, \<^verbatim>\<open>.get\<close> raises \<^verbatim>\<open>AttributeError\<close> when the decoded value is
  not a dict, and the result model validates the message.
\<close>

definition json_message :: "response \<Rightarrow> string \<Rightarrow> exception + string option" where
  "json_message r dflt =
     (case json r of
        None \<Rightarrow> Inl (Foreign ''JSONDecodeError'')
      | Some (JObj d) \<Rightarrow> optional_str_field (dict_get d ''message'' (JStr dflt))
      | Some _ \<Rightarrow> Inl (Foreign ''AttributeError''))"

text \<open>
  The 201 branch of \<^verbatim>\<open>put\<close>:
  \<^verbatim>\<open>PutResponse(success=True, message=result.get("message", ...),
  etag=result.get("data", {}).get("etag"))\<close>.
\<close>

definition put_result :: "response \<Rightarrow> exception + PutResponse" where
  "put_result r =
     (case json r of
        None \<Rightarrow> Inl (Foreign ''JSONDecodeError'')
      | Some (JObj d) \<Rightarrow>
          (case dict_get d ''data'' (JObj []) of
             JObj dd \<Rightarrow>
               (case optional_str_field (dict_get d ''message'' (JStr ''Object uploaded successfully'')) of
                  Inl e \<Rightarrow> Inl e
                | Inr m \<Rightarrow>
                    (case optional_str_field (dict_get dd ''etag'' JNull) of
                       Inl e \<Rightarrow> Inl e
                     | Inr t \<Rightarrow> Inr (PutResponse True m t)))
           | _ \<Rightarrow> Inl (Foreign ''AttributeError''))
      | Some _ \<Rightarrow> Inl (Foreign ''AttributeError''))"

text \<open>
  The 200 branch of \<^verbatim>\<open>get\<close> (the same in both HTTP adapters):
  \<^verbatim>\<open>Metadata(content_type=headers.get("Content-Type"),
  size=int(headers.get("Content-Length", 0)), etag=headers.get("ETag"))\<close>.
  The builtin \<^verbatim>\<open>int\<close> on a header string is the parameter \<open>py_int\<close>
  (\<open>None\<close> where it raises \<^verbatim>\<open>ValueError\<close>); on the default \<^verbatim>\<open>0\<close> it is 0.
\<close>

definition get_result :: "(string \<Rightarrow> int option) \<Rightarrow> response \<Rightarrow> exception + bytes \<times> Metadata" where
  "get_result py_int r =
     (case (case headers r ''Content-Length'' of
              None \<Rightarrow> Some 0
            | Some s \<Rightarrow> py_int s) of
        None \<Rightarrow> Inl (Foreign ''ValueError'')
      | Some n \<Rightarrow>
          Inr (content r,
               \<lparr>content_type = headers r ''Content-Type'', content_encoding = None,
                size' = Some n, last_modified = None, etag = headers r ''ETag'',
                custom = []\<rparr>))"

text \<open>
  \<^verbatim>\<open>iter_content(chunk_size)\<close> and \<^verbatim>\<open>aiter_bytes(chunk_size)\<close> on a body that
  arrives whole and unchunked (sent with its length, no content coding): consecutive
  pieces of \<open>chunk_size\<close> bytes, the last one shorter when the length is not a
  multiple. (The adapters pass 8192; a chunk size of 0 is given the whole body.)
\<close>

function iter_content :: "nat \<Rightarrow> bytes \<Rightarrow> bytes list" where
  "iter_content chunk_size b =
     (if b = [] then []
      else if chunk_size = 0 then [b]
      else take chunk_size b # iter_content chunk_size (drop chunk_size b))"
  by pat_completeness auto
termination
  by (relation "measure (\<lambda>(n, b). length b)") auto

declare iter_content.simps [simp del]

text \<open>
  A streamed response is the response together with how its body is delivered to the
  body iterator of the library. \<open>None\<close>: the body \<open>content r\<close> arrives whole and
  unchunked, and the iterator cuts it as \<open>iter_content\<close> does. \<open>Some (pieces, e)\<close>:
  any other delivery (a chunked transfer, a body interrupted in transit), given by
  what the iterator does: it hands over \<open>pieces\<close>, in this order, and then ends
  (\<open>e = None\<close>) or raises the exception \<open>e\<close>.
\<close>

type_synonym delivery = "(bytes list \<times> transport_exception option) option"

type_synonym stream_outcome = "transport_exception + response \<times> delivery"

text \<open>
  The loop of the 200 branch of \<^verbatim>\<open>get_stream\<close>,
  \<^verbatim>\<open>for chunk in response.iter_content(chunk_size=8192): if chunk: yield chunk\<close>
  (\<^verbatim>\<open>async for\<close> over \<^verbatim>\<open>aiter_bytes\<close> in the QUIC adapter): the chunks it yields,
  in order, and the exception that ends the iteration, if any, as the two
  \<^verbatim>\<open>except\<close> clauses around the loop raise it.
\<close>

definition streamed_chunks :: "response \<Rightarrow> delivery \<Rightarrow> bytes list \<times> exception option" where
  "streamed_chunks r d =
     (case d of
        None \<Rightarrow> (filter (\<lambda>chunk. chunk \<noteq> []) (iter_content 8192 (content r)), None)
      | Some (pieces, e) \<Rightarrow>
          (filter (\<lambda>chunk. chunk \<noteq> []) pieces, map_option transport_error e))"

section \<open>rest\_client.py\<close>

definition RestClient_put_body :: "outcome \<Rightarrow> exception + PutResponse" where
  "RestClient_put_body out =
     (case out of
        Inl e \<Rightarrow> Inl (transport_error e)
      | Inr r \<Rightarrow> if status_code r = 201 then put_result r else Inl (handle_error r))"

definition RestClient_put :: "(nat \<Rightarrow> outcome) \<Rightarrow> nat \<times> (exception + PutResponse)" where
  "RestClient_put srv = retry (\<lambda>i. RestClient_put_body (srv i))"

definition RestClient_get_body ::
  "(string \<Rightarrow> int option) \<Rightarrow> outcome \<Rightarrow> exception + bytes \<times> Metadata" where
  "RestClient_get_body py_int out =
     (case out of
        Inl e \<Rightarrow> Inl (transport_error e)
      | Inr r \<Rightarrow> if status_code r = 200 then get_result py_int r else Inl (handle_error r))"

definition RestClient_get ::
  "(string \<Rightarrow> int option) \<Rightarrow> (nat \<Rightarrow> outcome) \<Rightarrow> nat \<times> (exception + bytes \<times> Metadata)" where
  "RestClient_get py_int srv = retry (\<lambda>i. RestClient_get_body py_int (srv i))"


text \<open>
  The block of \<^verbatim>\<open>delete\<close> under the comment ``Handle server returning 500 for
  non-existent objects (should be 404)'': the exception that leaves the inner
  \<^verbatim>\<open>try\<close>, if any. Its \<^verbatim>\<open>except (ValueError, KeyError)\<close> catches the JSON
  decoder's error only.
\<close>

definition delete_500_check :: "response \<Rightarrow> exception option" where
  "delete_500_check r =
     (case json r of
        None \<Rightarrow> None
      | Some (JObj d) \<Rightarrow>
          (case dict_get d ''message'' (JStr []) of
             JStr m \<Rightarrow>
               if contains ''not found'' (lower m) \<or> contains ''does not exist'' (lower m)
               then Some (ObjectNotFoundError ''Object not found'')
               else None
           | _ \<Rightarrow> Some (Foreign ''AttributeError''))
      | Some _ \<Rightarrow> Some (Foreign ''AttributeError''))"

definition RestClient_delete_body :: "outcome \<Rightarrow> exception + DeleteResponse" where
  "RestClient_delete_body out =
     (case out of
        Inl e \<Rightarrow> Inl (transport_error e)
      | Inr r \<Rightarrow>
          if status_code r = 200 then
            map_sum id (DeleteResponse True) (json_message r ''Object deleted successfully'')
          else
            (case (if status_code r = 500 then delete_500_check r else None) of
               Some e \<Rightarrow> Inl e
             | None \<Rightarrow> Inl (handle_error r)))"

definition RestClient_delete :: "(nat \<Rightarrow> outcome) \<Rightarrow> nat \<times> (exception + DeleteResponse)" where
  "RestClient_delete srv = retry (\<lambda>i. RestClient_delete_body (srv i))"

definition RestClient_exists_body :: "outcome \<Rightarrow> exception + ExistsResponse" where
  "RestClient_exists_body out =
     (case out of
        Inl e \<Rightarrow> Inl (transport_error e)
      | Inr r \<Rightarrow> Inr (ExistsResponse (status_code r = 200)))"

definition RestClient_exists :: "(nat \<Rightarrow> outcome) \<Rightarrow> nat \<times> (exception + ExistsResponse)" where
  "RestClient_exists srv = retry (\<lambda>i. RestClient_exists_body (srv i))"

definition RestClient_add_policy_body :: "outcome \<Rightarrow> exception + PolicyResponse" where
  "RestClient_add_policy_body out =
     (case out of
        Inl e \<Rightarrow> Inl (transport_error e)
      | Inr r \<Rightarrow>
          if status_code r = 200 \<or> status_code r = 201 then
            map_sum id (PolicyResponse True) (json_message r ''Policy added successfully'')
          else Inl (handle_error r))"

definition RestClient_add_policy :: "(nat \<Rightarrow> outcome) \<Rightarrow> nat \<times> (exception + PolicyResponse)" where
  "RestClient_add_policy srv = retry (\<lambda>i. RestClient_add_policy_body (srv i))"

section \<open>quic\_client.py\<close>

text \<open>The methods of \<^verbatim>\<open>QuicClient\<close> carry no decorator.\<close>

definition QuicClient_put_body :: "outcome \<Rightarrow> exception + PutResponse" where
  "QuicClient_put_body out =
     (case out of
        Inl e \<Rightarrow> Inl (transport_error e)
      | Inr r \<Rightarrow> if status_code r = 201 then put_result r else Inl (handle_error r))"

definition QuicClient_put :: "(nat \<Rightarrow> outcome) \<Rightarrow> nat \<times> (exception + PutResponse)" where
  "QuicClient_put srv = undecorated (\<lambda>i. QuicClient_put_body (srv i))"

definition QuicClient_get ::
  "(string \<Rightarrow> int option) \<Rightarrow> outcome \<Rightarrow> exception + bytes \<times> Metadata" where
  "QuicClient_get py_int out =
     (case out of
        Inl e \<Rightarrow> Inl (transport_error e)
      | Inr r \<Rightarrow> if status_code r = 200 then get_result py_int r else Inl (handle_error r))"

text \<open>
  \<^verbatim>\<open>get_stream\<close> opens the response with \<^verbatim>\<open>self.client.stream("GET", url)\<close>,
  so on a status other than 200 \<^verbatim>\<open>_handle_error\<close> receives a response whose body
  has not been read: the 404 and the 401 branch raise without touching the body, and in
  every other branch \<^verbatim>\<open>response.json()\<close> and then \<^verbatim>\<open>response.text\<close> raise
  \<^verbatim>\<open>httpx.ResponseNotRead\<close>, the second time outside any handler, which neither
  \<^verbatim>\<open>except\<close> clause of the method catches.
\<close>

definition handle_error_unread :: "response \<Rightarrow> exception" where
  "handle_error_unread r =
     (if status_code r = 404 then ObjectNotFoundError ''Object not found''
      else if status_code r = 401 then AuthenticationError (JStr ''Authentication failed'')
      else Foreign ''ResponseNotRead'')"

definition QuicClient_get_stream :: "stream_outcome \<Rightarrow> bytes list \<times> exception option" where
  "QuicClient_get_stream out =
     (case out of
        Inl e \<Rightarrow> ([], Some (transport_error e))
      | Inr (r, d) \<Rightarrow>
          if status_code r = 200 then streamed_chunks r d
          else ([], Some (handle_error_unread r)))"

definition QuicClient_delete :: "outcome \<Rightarrow> exception + DeleteResponse" where
  "QuicClient_delete out =
     (case out of
        Inl e \<Rightarrow> Inl (transport_error e)
      | Inr r \<Rightarrow>
          if status_code r = 200 then
            map_sum id (DeleteResponse True) (json_message r ''Object deleted successfully'')
          else Inl (handle_error r))"

definition QuicClient_exists :: "outcome \<Rightarrow> exception + ExistsResponse" where
  "QuicClient_exists out =
     (case out of
        Inl e \<Rightarrow> Inl (transport_error e)
      | Inr r \<Rightarrow> Inr (ExistsResponse (status_code r = 200)))"

section \<open>grpc\_client.py\<close>

text \<open>
  \<^verbatim>\<open>grpc.StatusCode\<close>, and a \<^verbatim>\<open>grpc.RpcError\<close> with what
  \<^verbatim>\<open>error.code()\<close> and \<^verbatim>\<open>error.details()\<close> return.
\<close>

datatype StatusCode =
    OK | CANCELLED | UNKNOWN | INVALID_ARGUMENT | DEADLINE_EXCEEDED | NOT_FOUND
  | ALREADY_EXISTS | PERMISSION_DENIED | RESOURCE_EXHAUSTED | FAILED_PRECONDITION
  | ABORTED | OUT_OF_RANGE | UNIMPLEMENTED | INTERNAL | UNAVAILABLE | DATA_LOSS
  | UNAUTHENTICATED

record RpcError =
  code :: StatusCode
  details :: string

text \<open>\<^verbatim>\<open>_handle_grpc_error\<close>: it always raises; the model returns what it raises.\<close>

definition handle_grpc_error :: "RpcError \<Rightarrow> exception" where
  "handle_grpc_error error =
     (if code error = NOT_FOUND then ObjectNotFoundError (details error)
      else if code error = DEADLINE_EXCEEDED then TimeoutError (JStr (details error)) None
      else if code error = UNAVAILABLE then ConnectionError (JStr (details error)) None
      else if code error = INTERNAL then ServerError (JStr (details error)) None
      else ObjectStoreError (JStr (''gRPC error: '' @ details error)) None)"

text \<open>
  The protobuf \<^verbatim>\<open>Metadata\<close> message: scalar fields hold their proto3 default
  (empty string, 0) when unset; \<open>pb_last_modified\<close> is \<open>Some seconds\<close> when
  \<^verbatim>\<open>HasField("last_modified")\<close>. A \<^verbatim>\<open>GetResponse\<close> message carries a data
  fragment and, when \<^verbatim>\<open>HasField("metadata")\<close>, a metadata submessage.
\<close>

record pb_Metadata =
  pb_content_type :: string
  pb_content_encoding :: string
  pb_size :: int
  pb_etag :: string
  pb_custom :: "(string \<times> string) list"
  pb_last_modified :: "int option"

record GetResponse =
  data :: bytes
  metadata :: "pb_Metadata option"

text \<open>
  \<^verbatim>\<open>_proto_to_metadata\<close>. \<^verbatim>\<open>datetime.fromtimestamp\<close> is the parameter
  \<open>fromtimestamp\<close>: the datetime, or the exception it raises on a timestamp out of
  its range.
\<close>

definition or_None :: "string \<Rightarrow> string option" where
  "or_None s = (if s = [] then None else Some s)"

definition proto_to_metadata ::
  "(int \<Rightarrow> exception + datetime) \<Rightarrow> pb_Metadata \<Rightarrow> exception + Metadata" where
  "proto_to_metadata fromtimestamp proto_metadata =
     (let metadata =
        \<lparr>content_type = or_None (pb_content_type proto_metadata),
         content_encoding = or_None (pb_content_encoding proto_metadata),
         size' = (if pb_size proto_metadata \<noteq> 0 then Some (pb_size proto_metadata) else None),
         last_modified = None,
         etag = or_None (pb_etag proto_metadata),
         custom = pb_custom proto_metadata\<rparr>
      in case pb_last_modified proto_metadata of
           None \<Rightarrow> Inr metadata
         | Some seconds \<Rightarrow>
             (case fromtimestamp seconds of
                Inl e \<Rightarrow> Inl e
              | Inr t \<Rightarrow> Inr (metadata\<lparr>last_modified := Some t\<rparr>)))"

text \<open>
  The response stream of the \<^verbatim>\<open>Get\<close> call: the messages the iteration delivers
  and the \<^verbatim>\<open>RpcError\<close> it raises after them, if any.
\<close>

record response_stream =
  messages :: "GetResponse list"
  rpc_error :: "RpcError option"

text \<open>
  The \<^verbatim>\<open>for response in responses\<close> loop of \<^verbatim>\<open>get\<close>, with the two local
  variables as accumulators. An exception of the metadata conversion is not a
  \<^verbatim>\<open>grpc.RpcError\<close> and leaves the method as it is.
\<close>

fun get_loop ::
  "(int \<Rightarrow> exception + datetime) \<Rightarrow> GetResponse list \<Rightarrow> bytes \<Rightarrow> Metadata
     \<Rightarrow> exception + bytes \<times> Metadata" where
  "get_loop ft [] d m = Inr (d, m)"
| "get_loop ft (response # responses) d m =
     (case metadata response of
        None \<Rightarrow> get_loop ft responses (d @ data response) m
      | Some pm \<Rightarrow>
          (case proto_to_metadata ft pm of
             Inl e \<Rightarrow> Inl e
           | Inr m' \<Rightarrow> get_loop ft responses (d @ data response) m'))"

definition GrpcClient_get ::
  "(int \<Rightarrow> exception + datetime) \<Rightarrow> response_stream \<Rightarrow> exception + bytes \<times> Metadata" where
  "GrpcClient_get ft responses =
     (case get_loop ft (messages responses) [] Metadata_default of
        Inl e \<Rightarrow> Inl e
      | Inr result \<Rightarrow>
          (case rpc_error responses of
             None \<Rightarrow> Inr result
           | Some e \<Rightarrow> Inl (handle_grpc_error e)))"


text \<open>
  The unary calls: the stub either raises an \<^verbatim>\<open>RpcError\<close> or returns the
  response message, given here by its fields (\<open>success, message, etag\<close> for
  \<^verbatim>\<open>Put\<close>, \<open>success, message\<close> for \<^verbatim>\<open>Delete\<close>, \<open>exists\<close> for
  \<^verbatim>\<open>Exists\<close>). The methods carry no decorator.
\<close>

definition GrpcClient_put_body :: "RpcError + bool \<times> string \<times> string \<Rightarrow> exception + PutResponse" where
  "GrpcClient_put_body out =
     (case out of
        Inl e \<Rightarrow> Inl (handle_grpc_error e)
      | Inr (success, msg, tag) \<Rightarrow> Inr (PutResponse success (Some msg) (Some tag)))"

definition GrpcClient_put ::
  "(nat \<Rightarrow> RpcError + bool \<times> string \<times> string) \<Rightarrow> nat \<times> (exception + PutResponse)" where
  "GrpcClient_put srv = undecorated (\<lambda>i. GrpcClient_put_body (srv i))"

definition GrpcClient_delete :: "RpcError + bool \<times> string \<Rightarrow> exception + DeleteResponse" where
  "GrpcClient_delete out =
     (case out of
        Inl e \<Rightarrow> Inl (handle_grpc_error e)
      | Inr (success, msg) \<Rightarrow> Inr (DeleteResponse success (Some msg)))"

definition GrpcClient_exists :: "RpcError + bool \<Rightarrow> exception + ExistsResponse" where
  "GrpcClient_exists out =
     (case out of
        Inl e \<Rightarrow> Inl (handle_grpc_error e)
      | Inr ex \<Rightarrow> Inr (ExistsResponse ex))"

section \<open>client.py: running a coroutine of the QUIC adapter from blocking code\<close>

text \<open>
  What awaiting a coroutine does: it returns a value or raises. The exception raised is
  given by what \<^verbatim>\<open>_run_async\<close> tests of it: \<open>Other_Exception e\<close> is an
  \<^verbatim>\<open>Exception\<close> that is not a \<^verbatim>\<open>RuntimeError\<close> (every error of
  \<^verbatim>\<open>exceptions.py\<close> is one), \<open>RuntimeError msg\<close> a \<^verbatim>\<open>RuntimeError\<close> or
  an instance of a subclass, with its message, and \<open>BaseException n\<close> an exception
  of class \<open>n\<close> that is not an \<^verbatim>\<open>Exception\<close> (\<^verbatim>\<open>asyncio.CancelledError\<close>,
  \<^verbatim>\<open>KeyboardInterrupt\<close>, \<^verbatim>\<open>SystemExit\<close>).
\<close>

datatype raised =
    Other_Exception exception
  | RuntimeError string
  | BaseException string

datatype 'a awaited =
    Returns 'a
  | Raises raised

text \<open>
  \<^verbatim>\<open>self._event_loop\<close>: \<^verbatim>\<open>None\<close>, a closed loop, or an open loop, with whether
  it is the loop that is running on the calling thread.
\<close>

datatype event_loop = NoLoop | ClosedLoop | OpenLoop bool

text \<open>What is asked to drive the coroutine, in the order of the calls.\<close>

datatype driver = Worker_thread | Asyncio_run | Run_until_complete

text \<open>
  \<^verbatim>\<open>asyncio.run(coro)\<close> and \<^verbatim>\<open>loop.run_until_complete(coro)\<close> on the calling
  thread: each refuses with a \<^verbatim>\<open>RuntimeError\<close> when a loop is running on that
  thread, and otherwise drives the coroutine and returns or raises as it does.
\<close>

definition asyncio_run :: "bool \<Rightarrow> 'a awaited \<Rightarrow> 'a awaited" where
  "asyncio_run loop_running coro =
     (if loop_running
      then Raises (RuntimeError ''asyncio.run() cannot be called from a running event loop'')
      else coro)"

definition run_until_complete :: "bool \<Rightarrow> bool \<Rightarrow> 'a awaited \<Rightarrow> 'a awaited" where
  "run_until_complete this_loop_running loop_running coro =
     (if this_loop_running then Raises (RuntimeError ''This event loop is already running'')
      else if loop_running
      then Raises (RuntimeError ''Cannot run the event loop while another loop is running'')
      else coro)"

text \<open>
  The \<^verbatim>\<open>except RuntimeError\<close> handler of \<^verbatim>\<open>_run_async\<close>.
\<close>

definition on_RuntimeError :: "bool \<Rightarrow> event_loop \<Rightarrow> 'a awaited \<Rightarrow> driver list \<times> 'a awaited" where
  "on_RuntimeError loop_running event_loop coro =
     (case event_loop of
        OpenLoop this_loop_running \<Rightarrow>
          ([Run_until_complete], run_until_complete this_loop_running loop_running coro)
      | _ \<Rightarrow> ([Asyncio_run], asyncio_run loop_running coro))"

text \<open>
  \<^verbatim>\<open>run_in_thread\<close>, the target of the worker thread, seen from the caller after
  \<^verbatim>\<open>thread.join()\<close>: the two variables \<^verbatim>\<open>result\<close> and \<^verbatim>\<open>exception\<close>. The
  worker's \<^verbatim>\<open>except Exception\<close> stores an exception; one that is not an
  \<^verbatim>\<open>Exception\<close> ends the thread and leaves both variables \<^verbatim>\<open>None\<close>.
\<close>

definition run_in_thread :: "'a awaited \<Rightarrow> 'a option \<times> raised option" where
  "run_in_thread coro =
     (case coro of
        Returns v \<Rightarrow> (Some v, None)
      | Raises (BaseException n) \<Rightarrow> (None, None)
      | Raises x \<Rightarrow> (None, Some x))"

text \<open>
  \<^verbatim>\<open>ObjectStoreClient._run_async\<close>. \<open>loop_running\<close> says whether
  \<^verbatim>\<open>asyncio.get_running_loop()\<close> finds a loop on the calling thread (it raises the
  \<^verbatim>\<open>RuntimeError\<close> of the handler when none runs). With a running loop the
  coroutine is run by the worker thread, and \<^verbatim>\<open>if exception: raise exception\<close> and
  \<^verbatim>\<open>return result\<close> follow, all inside the \<^verbatim>\<open>try\<close> of that handler. The value
  returned is \<open>None\<close> when \<^verbatim>\<open>result\<close> was never assigned.
\<close>

definition run_async ::
  "bool \<Rightarrow> event_loop \<Rightarrow> 'a awaited \<Rightarrow> driver list \<times> 'a option awaited" where
  "run_async loop_running event_loop coro =
     (if loop_running then
        (case run_in_thread coro of
           (result, None) \<Rightarrow> ([Worker_thread], Returns result)
         | (result, Some (RuntimeError msg)) \<Rightarrow>
             (case on_RuntimeError loop_running event_loop coro of
                (ds, a) \<Rightarrow> (Worker_thread # ds, map_awaited Some a))
         | (result, Some x) \<Rightarrow> ([Worker_thread], Raises x))
      else
        (case on_RuntimeError loop_running event_loop coro of
           (ds, a) \<Rightarrow> (ds, map_awaited Some a)))"

text \<open>
  \<^verbatim>\<open>ObjectStoreClient.get_stream\<close> with the QUIC protocol, a generator: it makes a
  new event loop and calls \<^verbatim>\<open>loop.run_until_complete\<close> for each chunk on the
  calling thread, with no worker. With a loop running there the first call raises the
  \<^verbatim>\<open>RuntimeError\<close> before the adapter's generator has run.
\<close>

definition ObjectStoreClient_get_stream ::
  "bool \<Rightarrow> stream_outcome \<Rightarrow> bytes list \<times> exception option" where
  "ObjectStoreClient_get_stream loop_running out =
     (if loop_running then ([], Some (Foreign ''RuntimeError''))
      else QuicClient_get_stream out)"

section \<open>Lifecycle policy defaults\<close>

lemma model_post_init_cases:
  "retention_seconds (model_post_init p) =
     Some (case retention_seconds p of
             Some r \<Rightarrow> r
           | None \<Rightarrow> (case days_after_creation p of Some d \<Rightarrow> d * 86400 | None \<Rightarrow> 2592000))"
  by (simp add: model_post_init_def split: option.splits)

lemma model_dump_keys:
  "map fst (model_dump p) =
     [''id'', ''prefix'', ''retention_seconds'', ''action'', ''destination_type'',
      ''destination_settings'', ''enabled'']"
  by (simp add: model_dump_def)

lemma model_dump_no_days: "''days_after_creation'' \<notin> fst ` set (model_dump p)"
proof -
  have "''days_after_creation'' \<notin> set (map fst (model_dump p))"
    unfolding model_dump_keys by simp
  then show ?thesis by simp
qed

lemma model_dump_exclude_none_no_days:
  "''days_after_creation'' \<notin> fst ` set (model_dump_exclude_none p)"
  using model_dump_no_days [of p] by (auto simp: model_dump_exclude_none_def)

text \<open>
  C4. A policy constructed without \<open>retention_seconds\<close> gets
  \<open>days_after_creation * 86400\<close> when the age in days is given (30 days give 2592000)
  and 2592000 when it is not; an explicit \<open>retention_seconds\<close> is kept as given; and
  neither serialisation of the constructed policy has a \<open>days_after_creation\<close> key.
\<close>

theorem C4_lifecycle_retention:
  "retention_seconds (model_post_init (p\<lparr>retention_seconds := None, days_after_creation := Some d\<rparr>))
     = Some (d * 86400)
   \<and> retention_seconds (model_post_init (p\<lparr>retention_seconds := None, days_after_creation := Some 30\<rparr>))
     = Some 2592000
   \<and> retention_seconds (model_post_init (p\<lparr>retention_seconds := None, days_after_creation := None\<rparr>))
     = Some 2592000
   \<and> retention_seconds (model_post_init (p\<lparr>retention_seconds := Some r\<rparr>)) = Some r
   \<and> ''days_after_creation'' \<notin> fst ` set (model_dump (model_post_init p))
   \<and> ''days_after_creation'' \<notin> fst ` set (model_dump_exclude_none (model_post_init p))"
  by (simp add: model_post_init_cases model_dump_no_days model_dump_exclude_none_no_days)

section \<open>The retry decorator\<close>

lemma retry_unfold:
  "retry attempt =
     (case attempt 0 of
        Inr v \<Rightarrow> (1, Inr v)
      | Inl e0 \<Rightarrow>
          (case attempt 1 of
             Inr v \<Rightarrow> (2, Inr v)
           | Inl e1 \<Rightarrow> (3, attempt 2)))"
  by (simp add: retry_def stop_after_attempt_def eval_nat_numeral split: sum.splits)

lemma retry_if:
  "retry attempt =
     (if \<not> isl (attempt 0) then (1, attempt 0)
      else if \<not> isl (attempt 1) then (2, attempt 1)
      else (3, attempt 2))"
  by (simp add: retry_unfold split: sum.splits)

lemma retry_first: "attempt 0 = Inr v \<Longrightarrow> retry attempt = (1, Inr v)"
  by (simp add: retry_unfold)

lemma retry_const: "snd (retry (\<lambda>i. x)) = x"
  by (simp add: retry_unfold split: sum.splits)

lemma retry_some_attempt:
  "snd (retry attempt) = attempt 0 \<or> snd (retry attempt) = attempt 1
   \<or> snd (retry attempt) = attempt 2"
  by (simp add: retry_unfold split: sum.splits)

text \<open>
  C1. In the REST adapter \<^verbatim>\<open>put\<close> and \<^verbatim>\<open>add_policy\<close> are retried exactly as
  \<^verbatim>\<open>get\<close>, \<^verbatim>\<open>delete\<close> and \<^verbatim>\<open>exists\<close> are: whatever exception an
  attempt raises, a further attempt follows until one returns or three have been made,
  and the third attempt's outcome is final. The QUIC and gRPC adapters run \<^verbatim>\<open>put\<close>
  once.
\<close>

theorem C1_rest_retries_after_any_error:
  "RestClient_put srv =
     (if \<not> isl (RestClient_put_body (srv 0)) then (1, RestClient_put_body (srv 0))
      else if \<not> isl (RestClient_put_body (srv 1)) then (2, RestClient_put_body (srv 1))
      else (3, RestClient_put_body (srv 2)))
   \<and> RestClient_add_policy srv =
     (if \<not> isl (RestClient_add_policy_body (srv 0)) then (1, RestClient_add_policy_body (srv 0))
      else if \<not> isl (RestClient_add_policy_body (srv 1)) then (2, RestClient_add_policy_body (srv 1))
      else (3, RestClient_add_policy_body (srv 2)))
   \<and> RestClient_get py_int srv =
     (if \<not> isl (RestClient_get_body py_int (srv 0)) then (1, RestClient_get_body py_int (srv 0))
      else if \<not> isl (RestClient_get_body py_int (srv 1)) then (2, RestClient_get_body py_int (srv 1))
      else (3, RestClient_get_body py_int (srv 2)))
   \<and> RestClient_delete srv =
     (if \<not> isl (RestClient_delete_body (srv 0)) then (1, RestClient_delete_body (srv 0))
      else if \<not> isl (RestClient_delete_body (srv 1)) then (2, RestClient_delete_body (srv 1))
      else (3, RestClient_delete_body (srv 2)))
   \<and> RestClient_exists srv =
     (if \<not> isl (RestClient_exists_body (srv 0)) then (1, RestClient_exists_body (srv 0))
      else if \<not> isl (RestClient_exists_body (srv 1)) then (2, RestClient_exists_body (srv 1))
      else (3, RestClient_exists_body (srv 2)))
   \<and> QuicClient_put srv = (1, QuicClient_put_body (srv 0))
   \<and> GrpcClient_put gsrv = (1, GrpcClient_put_body (gsrv 0))"
  unfolding RestClient_put_def RestClient_add_policy_def RestClient_get_def
    RestClient_delete_def RestClient_exists_def QuicClient_put_def GrpcClient_put_def
    undecorated_def
  by (simp add: retry_if)

theorem C1_put_validation_error_counterexample:
  \<open>RestClient_put
      (\<lambda>i. Inr \<lparr>status_code = 400, headers = Map.empty,
                 content = ''{"message": "invalid key"}'',
                 body_text = ''{"message": "invalid key"}'',
                 json = Some (JObj [(''message'', JStr ''invalid key'')])\<rparr>)
    = (3, Inl (ValidationError (JStr ''invalid key'')))
   \<and> fst (RestClient_put
      (\<lambda>i. Inr \<lparr>status_code = 400, headers = Map.empty,
                 content = ''{"message": "invalid key"}'',
                 body_text = ''{"message": "invalid key"}'',
                 json = Some (JObj [(''message'', JStr ''invalid key'')])\<rparr>)) \<noteq> 1\<close>
  by (simp add: RestClient_put_def RestClient_put_body_def retry_unfold handle_error_def
        error_message_def dict_get_def)

theorem C1_rest_retries_after_any_error_witness:
  "RestClient_put
     (\<lambda>i. if i < 2
           then Inl \<lparr>exc_name = ''ReadTimeout'', is_Timeout = True,
                     is_ConnectionError = False, exc_str = ''timed out''\<rparr>
           else Inr \<lparr>status_code = 201, headers = Map.empty, content = ''{}'',
                     body_text = ''{}'', json = Some (JObj [])\<rparr>)
     = (3, Inr (PutResponse True (Some ''Object uploaded successfully'') None))
   \<and> QuicClient_put
     (\<lambda>i. Inl \<lparr>exc_name = ''ReadTimeout'', is_Timeout = True,
                is_ConnectionError = False, exc_str = ''timed out''\<rparr>)
     = (1, Inl (TimeoutError (JStr ''Request timed out'') None))
   \<and> GrpcClient_put (\<lambda>i. Inl \<lparr>code = UNAVAILABLE, details = ''down''\<rparr>)
     = (1, Inl (ConnectionError (JStr ''down'') None))"
  using C1_rest_retries_after_any_error
          [of "\<lambda>i. if i < 2
                   then Inl \<lparr>exc_name = ''ReadTimeout'', is_Timeout = True,
                             is_ConnectionError = False, exc_str = ''timed out''\<rparr>
                   else Inr \<lparr>status_code = 201, headers = Map.empty, content = ''{}'',
                             body_text = ''{}'', json = Some (JObj [])\<rparr>"]
        C1_rest_retries_after_any_error
          [of "\<lambda>i. Inl \<lparr>exc_name = ''ReadTimeout'', is_Timeout = True,
                is_ConnectionError = False, exc_str = ''timed out''\<rparr>" "\<lambda>s. None"
              "\<lambda>i. Inl \<lparr>code = UNAVAILABLE, details = ''down''\<rparr>"]
  by (simp add: RestClient_put_body_def QuicClient_put_body_def GrpcClient_put_body_def
        transport_error_def put_result_def dict_get_def optional_str_field_def
        handle_grpc_error_def)




text \<open>
  C10. In the REST and the QUIC adapter \<^verbatim>\<open>exists\<close> answers \<open>exists = False\<close> to
  every response whose status is not 200, a 500 included, and raises nothing (the REST
  call ends at its first attempt).
\<close>

theorem C10_exists_false_unless_200:
  "status_code r \<noteq> 200 \<Longrightarrow> srv 0 = Inr r \<Longrightarrow>
     RestClient_exists srv = (1, Inr (ExistsResponse False))
     \<and> QuicClient_exists (Inr r) = Inr (ExistsResponse False)"
  by (simp add: RestClient_exists_def RestClient_exists_body_def QuicClient_exists_def retry_first)

theorem C10_exists_false_unless_200_witness:
  "status_code \<lparr>status_code = 500, headers = Map.empty, content = ''boom'',
                body_text = ''boom'', json = None\<rparr> \<noteq> 200
   \<and> RestClient_exists
        (\<lambda>i. Inr \<lparr>status_code = 500, headers = Map.empty, content = ''boom'',
                   body_text = ''boom'', json = None\<rparr>)
       = (1, Inr (ExistsResponse False))
   \<and> QuicClient_exists
        (Inr \<lparr>status_code = 500, headers = Map.empty, content = ''boom'',
              body_text = ''boom'', json = None\<rparr>)
       = Inr (ExistsResponse False)"
  using C10_exists_false_unless_200
          [of "\<lparr>status_code = 500, headers = Map.empty, content = ''boom'',
                body_text = ''boom'', json = None\<rparr>"
              "\<lambda>i. Inr \<lparr>status_code = 500, headers = Map.empty, content = ''boom'',
                         body_text = ''boom'', json = None\<rparr>"]
  by simp

section \<open>The response stream of the gRPC get\<close>

lemma get_loop_result:
  "\<forall>pm \<in> set (List.map_filter metadata rs). \<not> isl (proto_to_metadata ft pm) \<Longrightarrow>
   get_loop ft rs d m =
     Inr (d @ concat (map data rs),
          case List.map_filter metadata rs of
            [] \<Rightarrow> m
          | pms \<Rightarrow> projr (proto_to_metadata ft (last pms)))"
proof (induction rs arbitrary: d m)
  case Nil
  show ?case by simp
next
  case (Cons r rs)
  show ?case
  proof (cases "metadata r")
    case None
    then have mf: "List.map_filter metadata (r # rs) = List.map_filter metadata rs"
      by simp
    with Cons.prems Cons.IH [of "d @ data r" m] None show ?thesis
      by simp
  next
    case (Some pm)
    then have mf: "List.map_filter metadata (r # rs) = pm # List.map_filter metadata rs"
      by simp
    with Cons.prems have ok: "\<not> isl (proto_to_metadata ft pm)"
      and rest: "\<forall>pm \<in> set (List.map_filter metadata rs). \<not> isl (proto_to_metadata ft pm)"
      by simp_all
    from ok obtain m' where m': "proto_to_metadata ft pm = Inr m'"
      by (cases "proto_to_metadata ft pm") simp_all
    show ?thesis
      using Cons.IH [OF rest, of "d @ data r" m'] Some m' mf
      by (simp split: list.splits)
  qed
qed

text \<open>
  C3. When the stream ends without an RPC error (and every metadata submessage
  converts), \<^verbatim>\<open>get\<close> returns the data fragments of all messages concatenated in
  arrival order, and the metadata of the \<^emph>\<open>last\<close> message that bears a metadata
  submessage: each later one replaces the one before. With no such message the metadata
  is \<^verbatim>\<open>Metadata()\<close>.
\<close>

theorem C3_get_concatenates_and_keeps_last_metadata:
  "rpc_error s = None \<Longrightarrow>
   \<forall>pm \<in> set (List.map_filter metadata (messages s)). \<not> isl (proto_to_metadata ft pm) \<Longrightarrow>
   GrpcClient_get ft s =
     Inr (concat (map data (messages s)),
          case List.map_filter metadata (messages s) of
            [] \<Rightarrow> Metadata_default
          | pms \<Rightarrow> projr (proto_to_metadata ft (last pms)))"
  by (simp add: GrpcClient_get_def get_loop_result)

theorem C3_get_concatenates_and_keeps_last_metadata_witness:
  "GrpcClient_get Inr
     \<lparr>messages =
        [\<lparr>data = ''ab'',
          metadata = Some \<lparr>pb_content_type = ''text/plain'', pb_content_encoding = [],
                           pb_size = 4, pb_etag = ''v1'', pb_custom = [],
                           pb_last_modified = None\<rparr>\<rparr>,
         \<lparr>data = ''cd'', metadata = None\<rparr>],
      rpc_error = None\<rparr>
   = Inr (''abcd'',
          \<lparr>content_type = Some ''text/plain'', content_encoding = None, size' = Some 4,
           last_modified = None, etag = Some ''v1'', custom = []\<rparr>)"
  using C3_get_concatenates_and_keeps_last_metadata
          [of "\<lparr>messages =
                [\<lparr>data = ''ab'',
                  metadata = Some \<lparr>pb_content_type = ''text/plain'', pb_content_encoding = [],
                                   pb_size = 4, pb_etag = ''v1'', pb_custom = [],
                                   pb_last_modified = None\<rparr>\<rparr>,
                 \<lparr>data = ''cd'', metadata = None\<rparr>],
              rpc_error = None\<rparr>" Inr]
  by (simp add: proto_to_metadata_def or_None_def)

theorem C3_later_metadata_replaces_counterexample:
  "GrpcClient_get Inr
     \<lparr>messages =
        [\<lparr>data = ''ab'',
          metadata = Some \<lparr>pb_content_type = ''text/plain'', pb_content_encoding = [],
                           pb_size = 4, pb_etag = ''v1'', pb_custom = [],
                           pb_last_modified = None\<rparr>\<rparr>,
         \<lparr>data = ''cd'',
          metadata = Some \<lparr>pb_content_type = ''image/png'', pb_content_encoding = [],
                           pb_size = 9, pb_etag = ''v2'', pb_custom = [],
                           pb_last_modified = None\<rparr>\<rparr>],
      rpc_error = None\<rparr>
   = Inr (''abcd'',
          \<lparr>content_type = Some ''image/png'', content_encoding = None, size' = Some 9,
           last_modified = None, etag = Some ''v2'', custom = []\<rparr>)
   \<and> proto_to_metadata Inr
        \<lparr>pb_content_type = ''text/plain'', pb_content_encoding = [],
         pb_size = 4, pb_etag = ''v1'', pb_custom = [], pb_last_modified = None\<rparr>
     = Inr \<lparr>content_type = Some ''text/plain'', content_encoding = None, size' = Some 4,
            last_modified = None, etag = Some ''v1'', custom = []\<rparr>
   \<and> \<lparr>content_type = Some ''image/png'', content_encoding = None, size' = Some 9,
       last_modified = None, etag = Some ''v2'', custom = []\<rparr>
     \<noteq> \<lparr>content_type = Some ''text/plain'', content_encoding = None, size' = Some 4,
         last_modified = None, etag = Some ''v1'', custom = []\<rparr>"
  by (simp add: GrpcClient_get_def proto_to_metadata_def or_None_def)

section \<open>Delete\<close>

text \<open>
  C5. \<^verbatim>\<open>delete\<close> hands the server's answer on, with one exception in the REST
  adapter. Each attempt of the REST adapter answers a 200 response whose body is a JSON
  object with a string \<^verbatim>\<open>message\<close> (or with none: then the default text) by a
  success carrying that message; it raises \<^verbatim>\<open>ObjectNotFoundError\<close> for a 500
  response whose body is a JSON object with a string \<^verbatim>\<open>message\<close> that,
  lower-cased, contains ``not found'' or ``does not exist''; and it raises what
  \<^verbatim>\<open>_handle_error\<close> makes of the status code for every status other than 200 and
  500 and for a 500 response whose body is not JSON or is a JSON object whose string
  message has neither phrase. A request that fails is raised as the two
  \<^verbatim>\<open>except\<close> clauses map it. The REST call makes a further attempt after every
  attempt that raises, and surfaces the first attempt that returns or else the third.
  The QUIC adapter answers the same 200 responses by the same success and raises every
  other status by \<^verbatim>\<open>_handle_error\<close>; the gRPC adapter returns the server's success
  flag and message, or raises the RPC error by \<^verbatim>\<open>_handle_grpc_error\<close>.
\<close>

theorem C5_delete_outcome:
  "RestClient_delete srv =
     (if \<not> isl (RestClient_delete_body (srv 0)) then (1, RestClient_delete_body (srv 0))
      else if \<not> isl (RestClient_delete_body (srv 1)) then (2, RestClient_delete_body (srv 1))
      else (3, RestClient_delete_body (srv 2)))
   \<and> RestClient_delete_body (Inl x) = Inl (transport_error x)
   \<and> QuicClient_delete (Inl x) = Inl (transport_error x)
   \<and> (status_code r = 200 \<and> json r = Some (JObj d)
      \<and> dict_get d ''message'' (JStr ''Object deleted successfully'') = JStr m \<longrightarrow>
      RestClient_delete_body (Inr r) = Inr (DeleteResponse True (Some m))
      \<and> QuicClient_delete (Inr r) = Inr (DeleteResponse True (Some m)))
   \<and> (status_code r \<noteq> 200 \<and> status_code r \<noteq> 500 \<longrightarrow>
      RestClient_delete_body (Inr r) = Inl (handle_error r))
   \<and> (status_code r = 500 \<and> json r = None \<longrightarrow>
      RestClient_delete_body (Inr r) = Inl (handle_error r))
   \<and> (status_code r = 500 \<and> json r = Some (JObj d)
      \<and> dict_get d ''message'' (JStr []) = JStr m
      \<and> \<not> contains ''not found'' (lower m) \<and> \<not> contains ''does not exist'' (lower m) \<longrightarrow>
      RestClient_delete_body (Inr r) = Inl (handle_error r))
   \<and> (status_code r = 500 \<and> json r = Some (JObj d)
      \<and> dict_get d ''message'' (JStr []) = JStr m
      \<and> (contains ''not found'' (lower m) \<or> contains ''does not exist'' (lower m)) \<longrightarrow>
      RestClient_delete_body (Inr r) = Inl (ObjectNotFoundError ''Object not found''))
   \<and> (status_code r \<noteq> 200 \<longrightarrow> QuicClient_delete (Inr r) = Inl (handle_error r))
   \<and> GrpcClient_delete (Inr (ok, msg)) = Inr (DeleteResponse ok (Some msg))
   \<and> GrpcClient_delete (Inl e) = Inl (handle_grpc_error e)"
proof -
  have call: "RestClient_delete srv =
     (if \<not> isl (RestClient_delete_body (srv 0)) then (1, RestClient_delete_body (srv 0))
      else if \<not> isl (RestClient_delete_body (srv 1)) then (2, RestClient_delete_body (srv 1))
      else (3, RestClient_delete_body (srv 2)))"
    unfolding RestClient_delete_def by (simp add: retry_if)
  have body: "RestClient_delete_body (Inl x) = Inl (transport_error x)
   \<and> QuicClient_delete (Inl x) = Inl (transport_error x)
   \<and> (status_code r = 200 \<and> json r = Some (JObj d)
      \<and> dict_get d ''message'' (JStr ''Object deleted successfully'') = JStr m \<longrightarrow>
      RestClient_delete_body (Inr r) = Inr (DeleteResponse True (Some m))
      \<and> QuicClient_delete (Inr r) = Inr (DeleteResponse True (Some m)))
   \<and> (status_code r \<noteq> 200 \<and> status_code r \<noteq> 500 \<longrightarrow>
      RestClient_delete_body (Inr r) = Inl (handle_error r))
   \<and> (status_code r = 500 \<and> json r = None \<longrightarrow>
      RestClient_delete_body (Inr r) = Inl (handle_error r))
   \<and> (status_code r = 500 \<and> json r = Some (JObj d)
      \<and> dict_get d ''message'' (JStr []) = JStr m
      \<and> \<not> contains ''not found'' (lower m) \<and> \<not> contains ''does not exist'' (lower m) \<longrightarrow>
      RestClient_delete_body (Inr r) = Inl (handle_error r))
   \<and> (status_code r = 500 \<and> json r = Some (JObj d)
      \<and> dict_get d ''message'' (JStr []) = JStr m
      \<and> (contains ''not found'' (lower m) \<or> contains ''does not exist'' (lower m)) \<longrightarrow>
      RestClient_delete_body (Inr r) = Inl (ObjectNotFoundError ''Object not found''))
   \<and> (status_code r \<noteq> 200 \<longrightarrow> QuicClient_delete (Inr r) = Inl (handle_error r))
   \<and> GrpcClient_delete (Inr (ok, msg)) = Inr (DeleteResponse ok (Some msg))
   \<and> GrpcClient_delete (Inl e) = Inl (handle_grpc_error e)"
    by (simp add: RestClient_delete_body_def QuicClient_delete_def GrpcClient_delete_def
          delete_500_check_def json_message_def optional_str_field_def)
  from call body show ?thesis by (rule conjI)
qed

theorem C5_delete_outcome_witness:
  \<open>RestClient_delete
      (\<lambda>i. if i = 0
            then Inr \<lparr>status_code = 404, headers = Map.empty, content = [],
                      body_text = [], json = None\<rparr>
            else Inr \<lparr>status_code = 200, headers = Map.empty,
                      content = ''{"message": "deleted"}'',
                      body_text = ''{"message": "deleted"}'',
                      json = Some (JObj [(''message'', JStr ''deleted'')])\<rparr>)
     = (2, Inr (DeleteResponse True (Some ''deleted'')))
   \<and> RestClient_delete_body
        (Inr \<lparr>status_code = 500, headers = Map.empty,
              content = ''{"message": "Key does not exist"}'',
              body_text = ''{"message": "Key does not exist"}'',
              json = Some (JObj [(''message'', JStr ''Key does not exist'')])\<rparr>)
     = Inl (ObjectNotFoundError ''Object not found'')
   \<and> QuicClient_delete
        (Inr \<lparr>status_code = 500, headers = Map.empty,
              content = ''{"message": "Key does not exist"}'',
              body_text = ''{"message": "Key does not exist"}'',
              json = Some (JObj [(''message'', JStr ''Key does not exist'')])\<rparr>)
     = Inl (ServerError (JStr ''Key does not exist'') (Some 500))
   \<and> RestClient_delete_body
        (Inr \<lparr>status_code = 500, headers = Map.empty, content = ''oops'',
              body_text = ''oops'', json = None\<rparr>)
     = Inl (ServerError (JStr ''oops'') (Some 500))
   \<and> RestClient_delete_body
        (Inr \<lparr>status_code = 500, headers = Map.empty,
              content = ''{"message": "disk full"}'',
              body_text = ''{"message": "disk full"}'',
              json = Some (JObj [(''message'', JStr ''disk full'')])\<rparr>)
     = Inl (ServerError (JStr ''disk full'') (Some 500))\<close>
proof -
  have a: "contains ''does not exist'' (lower ''Key does not exist'')" by code_simp
  have b: "\<not> contains ''not found'' (lower ''disk full'')" by code_simp
  have c: "\<not> contains ''does not exist'' (lower ''disk full'')" by code_simp
  have first: \<open>RestClient_delete
      (\<lambda>i. if i = 0
            then Inr \<lparr>status_code = 404, headers = Map.empty, content = [],
                      body_text = [], json = None\<rparr>
            else Inr \<lparr>status_code = 200, headers = Map.empty,
                      content = ''{"message": "deleted"}'',
                      body_text = ''{"message": "deleted"}'',
                      json = Some (JObj [(''message'', JStr ''deleted'')])\<rparr>)
     = (2, Inr (DeleteResponse True (Some ''deleted'')))\<close>
    using C5_delete_outcome
            [of \<open>\<lambda>i. if i = 0
                  then Inr \<lparr>status_code = 404, headers = Map.empty, content = [],
                            body_text = [], json = None\<rparr>
                  else Inr \<lparr>status_code = 200, headers = Map.empty,
                            content = ''{"message": "deleted"}'',
                            body_text = ''{"message": "deleted"}'',
                            json = Some (JObj [(''message'', JStr ''deleted'')])\<rparr>\<close>
                _
                \<open>\<lparr>status_code = 200, headers = Map.empty,
                  content = ''{"message": "deleted"}'',
                  body_text = ''{"message": "deleted"}'',
                  json = Some (JObj [(''message'', JStr ''deleted'')])\<rparr>\<close>
                "[(''message'', JStr ''deleted'')]" "''deleted''"]
          C5_delete_outcome
            [of _ _ "\<lparr>status_code = 404, headers = Map.empty, content = [],
                      body_text = [], json = None\<rparr>"]
    by (simp add: dict_get_def)
  have rest: \<open>RestClient_delete_body
        (Inr \<lparr>status_code = 500, headers = Map.empty,
              content = ''{"message": "Key does not exist"}'',
              body_text = ''{"message": "Key does not exist"}'',
              json = Some (JObj [(''message'', JStr ''Key does not exist'')])\<rparr>)
     = Inl (ObjectNotFoundError ''Object not found'')
   \<and> QuicClient_delete
        (Inr \<lparr>status_code = 500, headers = Map.empty,
              content = ''{"message": "Key does not exist"}'',
              body_text = ''{"message": "Key does not exist"}'',
              json = Some (JObj [(''message'', JStr ''Key does not exist'')])\<rparr>)
     = Inl (ServerError (JStr ''Key does not exist'') (Some 500))
   \<and> RestClient_delete_body
        (Inr \<lparr>status_code = 500, headers = Map.empty, content = ''oops'',
              body_text = ''oops'', json = None\<rparr>)
     = Inl (ServerError (JStr ''oops'') (Some 500))
   \<and> RestClient_delete_body
        (Inr \<lparr>status_code = 500, headers = Map.empty,
              content = ''{"message": "disk full"}'',
              body_text = ''{"message": "disk full"}'',
              json = Some (JObj [(''message'', JStr ''disk full'')])\<rparr>)
     = Inl (ServerError (JStr ''disk full'') (Some 500))\<close>
    using C5_delete_outcome
            [of _ _ \<open>\<lparr>status_code = 500, headers = Map.empty,
                  content = ''{"message": "Key does not exist"}'',
                  body_text = ''{"message": "Key does not exist"}'',
                  json = Some (JObj [(''message'', JStr ''Key does not exist'')])\<rparr>\<close>
                "[(''message'', JStr ''Key does not exist'')]" "''Key does not exist''"]
          C5_delete_outcome
            [of _ _ "\<lparr>status_code = 500, headers = Map.empty, content = ''oops'',
                  body_text = ''oops'', json = None\<rparr>"]
          C5_delete_outcome
            [of _ _ \<open>\<lparr>status_code = 500, headers = Map.empty,
                  content = ''{"message": "disk full"}'',
                  body_text = ''{"message": "disk full"}'',
                  json = Some (JObj [(''message'', JStr ''disk full'')])\<rparr>\<close>
                "[(''message'', JStr ''disk full'')]" "''disk full''"]
    by (simp add: a b c dict_get_def handle_error_def error_message_def)
  from first rest show ?thesis by (rule conjI)
qed

theorem C5_delete_500_rewritten_counterexample:
  \<open>snd (RestClient_delete
          (\<lambda>i. Inr \<lparr>status_code = 500, headers = Map.empty,
                     content = ''{"message": "object not found"}'',
                     body_text = ''{"message": "object not found"}'',
                     json = Some (JObj [(''message'', JStr ''object not found'')])\<rparr>))
     = Inl (ObjectNotFoundError ''Object not found'')
   \<and> handle_error
         \<lparr>status_code = 500, headers = Map.empty,
          content = ''{"message": "object not found"}'',
          body_text = ''{"message": "object not found"}'',
          json = Some (JObj [(''message'', JStr ''object not found'')])\<rparr>
     = ServerError (JStr ''object not found'') (Some 500)
   \<and> QuicClient_delete
         (Inr \<lparr>status_code = 500, headers = Map.empty,
               content = ''{"message": "object not found"}'',
               body_text = ''{"message": "object not found"}'',
               json = Some (JObj [(''message'', JStr ''object not found'')])\<rparr>)
     = Inl (ServerError (JStr ''object not found'') (Some 500))\<close>
proof -
  have a: "contains ''not found'' (lower ''object not found'')" by code_simp
  show ?thesis
    by (simp add: RestClient_delete_def retry_const RestClient_delete_body_def
          delete_500_check_def QuicClient_delete_def handle_error_def error_message_def
          dict_get_def a)
qed

section \<open>Exists\<close>

lemma RestClient_exists_body_kind:
  "case RestClient_exists_body out of
     Inr b \<Rightarrow> True
   | Inl e \<Rightarrow>
       \<not> isinstance e ''ObjectNotFoundError''
       \<and> (isinstance e ''TimeoutError'' \<or> isinstance e ''ConnectionError''
          \<or> \<not> isinstance e ''ObjectStoreError'')"
  by (cases out) (simp_all add: RestClient_exists_body_def transport_error_def)

text \<open>
  C6. In the REST and the QUIC adapter \<^verbatim>\<open>exists\<close> answers every response by the
  flag \<open>status_code = 200\<close>, and a request that fails is raised as the two
  \<^verbatim>\<open>except\<close> clauses map it: a \<^verbatim>\<open>TimeoutError\<close>, a \<^verbatim>\<open>ConnectionError\<close>, or
  the library's exception itself when it is neither a timeout nor a connection error.
  So what these two adapters raise is never an \<^verbatim>\<open>ObjectNotFoundError\<close>, and among
  the errors of \<^verbatim>\<open>exceptions.py\<close> it is a \<^verbatim>\<open>TimeoutError\<close> or a
  \<^verbatim>\<open>ConnectionError\<close> only. The REST call makes a further attempt after every
  attempt that raises and surfaces the first attempt that returns or else the third; a
  response at the first attempt ends it. In the gRPC adapter \<^verbatim>\<open>exists\<close> returns the
  server's flag, and an RPC error is raised by \<^verbatim>\<open>_handle_grpc_error\<close>: an
  \<^verbatim>\<open>ObjectNotFoundError\<close> exactly when the status code is NOT_FOUND.
\<close>

theorem C6_exists_errors:
  "RestClient_exists_body (Inr r) = Inr (ExistsResponse (status_code r = 200))
   \<and> QuicClient_exists (Inr r) = Inr (ExistsResponse (status_code r = 200))
   \<and> RestClient_exists_body (Inl x) = Inl (transport_error x)
   \<and> QuicClient_exists (Inl x) = Inl (transport_error x)
   \<and> transport_error x =
       (if is_Timeout x then TimeoutError (JStr ''Request timed out'') None
        else if is_ConnectionError x
        then ConnectionError (JStr (''Connection failed: '' @ exc_str x)) None
        else Foreign (exc_name x))
   \<and> RestClient_exists srv =
       (if \<not> isl (RestClient_exists_body (srv 0)) then (1, RestClient_exists_body (srv 0))
        else if \<not> isl (RestClient_exists_body (srv 1)) then (2, RestClient_exists_body (srv 1))
        else (3, RestClient_exists_body (srv 2)))
   \<and> (srv 0 = Inr r \<longrightarrow>
        RestClient_exists srv = (1, Inr (ExistsResponse (status_code r = 200))))
   \<and> (case snd (RestClient_exists srv) of
        Inr b \<Rightarrow> True
      | Inl e \<Rightarrow>
          \<not> isinstance e ''ObjectNotFoundError''
          \<and> (isinstance e ''TimeoutError'' \<or> isinstance e ''ConnectionError''
             \<or> \<not> isinstance e ''ObjectStoreError''))
   \<and> (case QuicClient_exists out of
        Inr b \<Rightarrow> True
      | Inl e \<Rightarrow>
          \<not> isinstance e ''ObjectNotFoundError''
          \<and> (isinstance e ''TimeoutError'' \<or> isinstance e ''ConnectionError''
             \<or> \<not> isinstance e ''ObjectStoreError''))
   \<and> GrpcClient_exists (Inr flag) = Inr (ExistsResponse flag)
   \<and> GrpcClient_exists (Inl err) = Inl (handle_grpc_error err)
   \<and> (isinstance (handle_grpc_error err) ''ObjectNotFoundError'' \<longleftrightarrow> code err = NOT_FOUND)"
proof -
  have bodies: "RestClient_exists_body (Inr r) = Inr (ExistsResponse (status_code r = 200))
   \<and> QuicClient_exists (Inr r) = Inr (ExistsResponse (status_code r = 200))
   \<and> RestClient_exists_body (Inl x) = Inl (transport_error x)
   \<and> QuicClient_exists (Inl x) = Inl (transport_error x)
   \<and> transport_error x =
       (if is_Timeout x then TimeoutError (JStr ''Request timed out'') None
        else if is_ConnectionError x
        then ConnectionError (JStr (''Connection failed: '' @ exc_str x)) None
        else Foreign (exc_name x))"
    by (simp add: RestClient_exists_body_def QuicClient_exists_def transport_error_def)
  have call: "RestClient_exists srv =
       (if \<not> isl (RestClient_exists_body (srv 0)) then (1, RestClient_exists_body (srv 0))
        else if \<not> isl (RestClient_exists_body (srv 1)) then (2, RestClient_exists_body (srv 1))
        else (3, RestClient_exists_body (srv 2)))"
    unfolding RestClient_exists_def by (simp add: retry_if)
  have first: "srv 0 = Inr r \<longrightarrow>
        RestClient_exists srv = (1, Inr (ExistsResponse (status_code r = 200)))"
    by (simp add: RestClient_exists_def RestClient_exists_body_def retry_first)
  have rest: "case snd (RestClient_exists srv) of
      Inr b \<Rightarrow> True
    | Inl e \<Rightarrow>
        \<not> isinstance e ''ObjectNotFoundError''
        \<and> (isinstance e ''TimeoutError'' \<or> isinstance e ''ConnectionError''
           \<or> \<not> isinstance e ''ObjectStoreError'')"
    using retry_some_attempt [of "\<lambda>i. RestClient_exists_body (srv i)"]
      RestClient_exists_body_kind [of "srv 0"] RestClient_exists_body_kind [of "srv 1"]
      RestClient_exists_body_kind [of "srv 2"]
    unfolding RestClient_exists_def by auto
  have quic: "case QuicClient_exists out of
      Inr b \<Rightarrow> True
    | Inl e \<Rightarrow>
        \<not> isinstance e ''ObjectNotFoundError''
        \<and> (isinstance e ''TimeoutError'' \<or> isinstance e ''ConnectionError''
           \<or> \<not> isinstance e ''ObjectStoreError'')"
    by (cases out) (simp_all add: QuicClient_exists_def transport_error_def)
  have grpc: "GrpcClient_exists (Inr flag) = Inr (ExistsResponse flag)
      \<and> GrpcClient_exists (Inl err) = Inl (handle_grpc_error err)
      \<and> (isinstance (handle_grpc_error err) ''ObjectNotFoundError'' \<longleftrightarrow> code err = NOT_FOUND)"
    by (simp add: GrpcClient_exists_def handle_grpc_error_def)
  from bodies call first rest quic grpc show ?thesis by blast
qed

theorem C6_exists_errors_witness:
  "RestClient_exists
     (\<lambda>i. Inr \<lparr>status_code = 200, headers = Map.empty, content = [], body_text = [],
                json = None\<rparr>)
     = (1, Inr (ExistsResponse True))
   \<and> RestClient_exists
     (\<lambda>i. Inl \<lparr>exc_name = ''ConnectionError'', is_Timeout = False,
                is_ConnectionError = True, exc_str = ''refused''\<rparr>)
     = (3, Inl (ConnectionError (JStr ''Connection failed: refused'') None))
   \<and> QuicClient_exists
         (Inr \<lparr>status_code = 404, headers = Map.empty, content = [], body_text = [],
               json = None\<rparr>)
     = Inr (ExistsResponse False)
   \<and> GrpcClient_exists (Inr True) = Inr (ExistsResponse True)
   \<and> GrpcClient_exists (Inl \<lparr>code = UNAVAILABLE, details = ''down''\<rparr>)
     = Inl (ConnectionError (JStr ''down'') None)"
  using C6_exists_errors
          [of "\<lparr>status_code = 200, headers = Map.empty, content = [], body_text = [],
                json = None\<rparr>"
              "\<lparr>exc_name = ''ConnectionError'', is_Timeout = False,
                is_ConnectionError = True, exc_str = ''refused''\<rparr>"
              "\<lambda>i. Inr \<lparr>status_code = 200, headers = Map.empty, content = [], body_text = [],
                         json = None\<rparr>"
              _ True "\<lparr>code = UNAVAILABLE, details = ''down''\<rparr>"]
        C6_exists_errors
          [of "\<lparr>status_code = 404, headers = Map.empty, content = [], body_text = [],
                json = None\<rparr>"
              "\<lparr>exc_name = ''ConnectionError'', is_Timeout = False,
                is_ConnectionError = True, exc_str = ''refused''\<rparr>"
              "\<lambda>i. Inl \<lparr>exc_name = ''ConnectionError'', is_Timeout = False,
                         is_ConnectionError = True, exc_str = ''refused''\<rparr>"]
  by (simp add: handle_grpc_error_def)

theorem C6_grpc_exists_not_found_counterexample:
  "GrpcClient_exists (Inl \<lparr>code = NOT_FOUND, details = ''no such key''\<rparr>)
     = Inl (ObjectNotFoundError ''no such key'')
   \<and> isinstance (ObjectNotFoundError ''no such key'') ''ObjectNotFoundError''
   \<and> GrpcClient_exists (Inl \<lparr>code = INTERNAL, details = ''disk''\<rparr>)
     = Inl (ServerError (JStr ''disk'') None)"
  by (simp add: GrpcClient_exists_def handle_grpc_error_def)

section \<open>Streaming download\<close>










section \<open>Metadata of a download\<close>

text \<open>
  C8. In the metadata that \<^verbatim>\<open>get\<close> of the REST and of the QUIC adapter builds from
  a 200 response, the content type and the entity tag are those of the
  \<^verbatim>\<open>Content-Type\<close> and \<^verbatim>\<open>ETag\<close> headers, \<open>None\<close> when the header is absent,
  the content encoding and the modification time are \<open>None\<close> and the custom map is
  empty; the size is 0 when the response has no \<^verbatim>\<open>Content-Length\<close> header, and the
  integer that \<^verbatim>\<open>int\<close> reads from the header when there is one and it reads as an
  integer. The gRPC adapter turns every unset field of a metadata message (an empty
  string, a size of 0, no timestamp) into \<open>None\<close> and keeps every set field.
\<close>

theorem C8_get_metadata_fields:
  "(status_code r = 200 \<and> srv 0 = Inr r \<and> headers r ''Content-Length'' = None \<longrightarrow>
      RestClient_get py_int srv =
        (1, Inr (content r,
                 \<lparr>content_type = headers r ''Content-Type'', content_encoding = None,
                  size' = Some 0, last_modified = None, etag = headers r ''ETag'',
                  custom = []\<rparr>))
      \<and> QuicClient_get py_int (Inr r) =
        Inr (content r,
             \<lparr>content_type = headers r ''Content-Type'', content_encoding = None,
              size' = Some 0, last_modified = None, etag = headers r ''ETag'',
              custom = []\<rparr>))
   \<and> (status_code r = 200 \<and> srv 0 = Inr r \<and> headers r ''Content-Length'' = Some s
        \<and> py_int s = Some n \<longrightarrow>
      RestClient_get py_int srv =
        (1, Inr (content r,
                 \<lparr>content_type = headers r ''Content-Type'', content_encoding = None,
                  size' = Some n, last_modified = None, etag = headers r ''ETag'',
                  custom = []\<rparr>))
      \<and> QuicClient_get py_int (Inr r) =
        Inr (content r,
             \<lparr>content_type = headers r ''Content-Type'', content_encoding = None,
              size' = Some n, last_modified = None, etag = headers r ''ETag'',
              custom = []\<rparr>))
   \<and> (pb_last_modified pm = None \<longrightarrow>
      proto_to_metadata ft pm =
        Inr \<lparr>content_type = (if pb_content_type pm = [] then None else Some (pb_content_type pm)),
             content_encoding =
               (if pb_content_encoding pm = [] then None else Some (pb_content_encoding pm)),
             size' = (if pb_size pm = 0 then None else Some (pb_size pm)),
             last_modified = None,
             etag = (if pb_etag pm = [] then None else Some (pb_etag pm)),
             custom = pb_custom pm\<rparr>)
   \<and> (pb_last_modified pm = Some t \<and> ft t = Inr dt \<longrightarrow>
      proto_to_metadata ft pm =
        Inr \<lparr>content_type = (if pb_content_type pm = [] then None else Some (pb_content_type pm)),
             content_encoding =
               (if pb_content_encoding pm = [] then None else Some (pb_content_encoding pm)),
             size' = (if pb_size pm = 0 then None else Some (pb_size pm)),
             last_modified = Some dt,
             etag = (if pb_etag pm = [] then None else Some (pb_etag pm)),
             custom = pb_custom pm\<rparr>)"
  by (simp add: RestClient_get_def RestClient_get_body_def QuicClient_get_def get_result_def
        retry_first proto_to_metadata_def or_None_def)

theorem C8_get_metadata_fields_witness:
  "RestClient_get (\<lambda>s. if s = ''9'' then Some 9 else None)
     (\<lambda>i. Inr \<lparr>status_code = 200, headers = [''ETag'' \<mapsto> ''abc123''],
                content = ''test data'', body_text = ''test data'', json = None\<rparr>)
   = (1, Inr (''test data'',
              \<lparr>content_type = None, content_encoding = None, size' = Some 0,
               last_modified = None, etag = Some ''abc123'', custom = []\<rparr>))
   \<and> QuicClient_get (\<lambda>s. if s = ''9'' then Some 9 else None)
     (Inr \<lparr>status_code = 200, headers = [''Content-Length'' \<mapsto> ''9''],
           content = ''test data'', body_text = ''test data'', json = None\<rparr>)
   = Inr (''test data'',
          \<lparr>content_type = None, content_encoding = None, size' = Some 9,
           last_modified = None, etag = None, custom = []\<rparr>)
   \<and> proto_to_metadata Inr
       \<lparr>pb_content_type = ''text/plain'', pb_content_encoding = [], pb_size = 0,
        pb_etag = [], pb_custom = [], pb_last_modified = None\<rparr>
     = Inr \<lparr>content_type = Some ''text/plain'', content_encoding = None, size' = None,
            last_modified = None, etag = None, custom = []\<rparr>
   \<and> proto_to_metadata Inr
       \<lparr>pb_content_type = [], pb_content_encoding = [], pb_size = 9,
        pb_etag = [], pb_custom = [], pb_last_modified = Some 1700000000\<rparr>
     = Inr \<lparr>content_type = None, content_encoding = None, size' = Some 9,
            last_modified = Some 1700000000, etag = None, custom = []\<rparr>"
  using C8_get_metadata_fields
          [of "\<lparr>status_code = 200, headers = [''ETag'' \<mapsto> ''abc123''],
                content = ''test data'', body_text = ''test data'', json = None\<rparr>"
              "\<lambda>i. Inr \<lparr>status_code = 200, headers = [''ETag'' \<mapsto> ''abc123''],
                         content = ''test data'', body_text = ''test data'', json = None\<rparr>"
              "\<lambda>s. if s = ''9'' then Some 9 else None" _ _
              "\<lparr>pb_content_type = ''text/plain'', pb_content_encoding = [], pb_size = 0,
                pb_etag = [], pb_custom = [], pb_last_modified = None\<rparr>" Inr]
        C8_get_metadata_fields
          [of "\<lparr>status_code = 200, headers = [''Content-Length'' \<mapsto> ''9''],
                content = ''test data'', body_text = ''test data'', json = None\<rparr>"
              "\<lambda>i. Inr \<lparr>status_code = 200, headers = [''Content-Length'' \<mapsto> ''9''],
                         content = ''test data'', body_text = ''test data'', json = None\<rparr>"
              "\<lambda>s. if s = ''9'' then Some 9 else None" "''9''" 9
              "\<lparr>pb_content_type = [], pb_content_encoding = [], pb_size = 9,
                pb_etag = [], pb_custom = [], pb_last_modified = Some 1700000000\<rparr>" Inr
              1700000000 1700000000]
  by simp

theorem C8_size_zero_counterexample:
  "RestClient_get (\<lambda>s. None)
     (\<lambda>i. Inr \<lparr>status_code = 200, headers = Map.empty,
                content = ''test data'', body_text = ''test data'', json = None\<rparr>)
   = (1, Inr (''test data'',
              \<lparr>content_type = None, content_encoding = None, size' = Some 0,
               last_modified = None, etag = None, custom = []\<rparr>))
   \<and> size' \<lparr>content_type = None, content_encoding = None, size' = Some 0,
            last_modified = None, etag = None, custom = []\<rparr> \<noteq> None"
  by (simp add: RestClient_get_def RestClient_get_body_def get_result_def retry_first)

section \<open>Blocking calls on the QUIC adapter under a running event loop\<close>

text \<open>
  C9. With an event loop running on the calling thread, \<^verbatim>\<open>_run_async\<close> hands the
  coroutine to the worker thread and to nothing else when the coroutine returns (its
  value is returned) and when it raises an \<^verbatim>\<open>Exception\<close> that is not a
  \<^verbatim>\<open>RuntimeError\<close> (the exception is raised again). When the coroutine raises a
  \<^verbatim>\<open>RuntimeError\<close> in the worker, the \<^verbatim>\<open>raise\<close> is caught by the
  \<^verbatim>\<open>except RuntimeError\<close> of the method, whose handler calls
  \<^verbatim>\<open>asyncio.run\<close> (or \<^verbatim>\<open>run_until_complete\<close> of an open loop the client
  holds) on the calling thread: the caller gets the refusal of that call and not the
  worker's exception. When the coroutine raises an
  exception that is not an \<^verbatim>\<open>Exception\<close>, the caller gets \<^verbatim>\<open>None\<close>. The
  streaming call has no worker: under a running loop it raises a \<^verbatim>\<open>RuntimeError\<close>
  and yields nothing, whatever the server answers.
\<close>

theorem C9_run_async_under_running_loop:
  "run_async True el (Returns v) = ([Worker_thread], Returns (Some v))
   \<and> run_async True el (Raises (Other_Exception e)) = ([Worker_thread], Raises (Other_Exception e))
   \<and> run_async True NoLoop (Raises (RuntimeError msg) :: 'a awaited)
     = ([Worker_thread, Asyncio_run],
        Raises (RuntimeError ''asyncio.run() cannot be called from a running event loop''))
   \<and> run_async True NoLoop (Raises (RuntimeError ''Event loop is closed'') :: 'a awaited)
     \<noteq> ([Worker_thread], Raises (RuntimeError ''Event loop is closed''))
   \<and> run_async True ClosedLoop (Raises (RuntimeError msg) :: 'a awaited)
     = ([Worker_thread, Asyncio_run],
        Raises (RuntimeError ''asyncio.run() cannot be called from a running event loop''))
   \<and> run_async True (OpenLoop False) (Raises (RuntimeError msg) :: 'a awaited)
     = ([Worker_thread, Run_until_complete],
        Raises (RuntimeError ''Cannot run the event loop while another loop is running''))
   \<and> run_async True (OpenLoop True) (Raises (RuntimeError msg) :: 'a awaited)
     = ([Worker_thread, Run_until_complete],
        Raises (RuntimeError ''This event loop is already running''))
   \<and> run_async True el (Raises (BaseException n) :: 'a awaited) = ([Worker_thread], Returns None)
   \<and> ObjectStoreClient_get_stream True out = ([], Some (Foreign ''RuntimeError''))"
  by (simp add: run_async_def run_in_thread_def on_RuntimeError_def asyncio_run_def
        run_until_complete_def ObjectStoreClient_get_stream_def)

end
